theory Spec2Isabelle
  imports Complex_Main
begin

section \<open>Keystroke-dynamics verification: the SQL functions and the login flow\<close>

text \<open>
  The verification engine of the repository is a set of PL/pgSQL functions
  (\<^verbatim>\<open>validate_keystroke_array\<close>, \<^verbatim>\<open>normalize_keystroke_pattern\<close>,
  \<^verbatim>\<open>calculate_adaptive_threshold\<close>, \<^verbatim>\<open>verify_keystroke_pattern\<close>) called from the
  login page. They are embedded here as HOL functions over tables.

  Conventions of the embedding:
  \<^item> \<^verbatim>\<open>float\<close> is \<^typ>\<open>real\<close>; a nullable value is an \<^typ>\<open>'a option\<close> with \<open>None\<close> for
    \<^verbatim>\<open>NULL\<close>; a \<^verbatim>\<open>float[]\<close> is a list of nullable reals.
  \<^item> A table is the list of its rows in physical order. \<^verbatim>\<open>ORDER BY\<close> is a stable sort of
    that list, so rows with equal keys keep their physical order.
  \<^item> A \<^verbatim>\<open>uuid\<close> is a natural number, ordered as such; a timestamp is a number of seconds,
    and \<^verbatim>\<open>interval '7 days'\<close> is 604800 of them.
  \<^item> A statement that PostgreSQL rejects when it analyses it (a name that it cannot
    resolve, a function that does not exist for the types of its arguments) raises where
    the function executes it, whatever the tables hold.
  \<^item> \<^verbatim>\<open>RAISE EXCEPTION\<close> and the errors of statements are the left summand of a sum type.
\<close>

subsection \<open>SQL values and aggregates\<close>

type_synonym float_array = "real option list"

definition coalesce :: "'a option \<Rightarrow> 'a \<Rightarrow> 'a" where
  "coalesce v d = (case v of None \<Rightarrow> d | Some x \<Rightarrow> x)"

text \<open>The values of a column that an aggregate looks at: the non-null ones.\<close>

fun non_null :: "'a option list \<Rightarrow> 'a list" where
  "non_null [] = []"
| "non_null (None # vs) = non_null vs"
| "non_null (Some x # vs) = x # non_null vs"

text \<open>\<^verbatim>\<open>avg\<close> is \<^verbatim>\<open>NULL\<close> over no non-null input.\<close>

definition sql_avg :: "real option list \<Rightarrow> real option" where
  "sql_avg vs =
     (let xs = non_null vs
      in if xs = [] then None else Some (sum_list xs / real (length xs)))"

text \<open>
  \<^verbatim>\<open>stddev\<close> is PostgreSQL's \<^verbatim>\<open>stddev_samp\<close>: the sample standard deviation, \<^verbatim>\<open>NULL\<close> when
  there are fewer than two non-null inputs.
\<close>

definition sql_stddev :: "real option list \<Rightarrow> real option" where
  "sql_stddev vs =
     (let xs = non_null vs; m = sum_list xs / real (length xs)
      in if length xs < 2 then None
         else Some (sqrt (sum_list (map (\<lambda>x. (x - m)\<^sup>2) xs) / real (length xs - 1))))"

text \<open>\<^verbatim>\<open>GREATEST\<close> ignores a \<^verbatim>\<open>NULL\<close> argument.\<close>

definition greatest :: "real option \<Rightarrow> real \<Rightarrow> real" where
  "greatest v c = (case v of None \<Rightarrow> c | Some x \<Rightarrow> max x c)"

text \<open>\<^verbatim>\<open>array_length(a, 1)\<close> is \<^verbatim>\<open>NULL\<close> for an empty array.\<close>

definition array_length :: "'a list \<Rightarrow> nat option" where
  "array_length a = (if a = [] then None else Some (length a))"

text \<open>Arithmetic on nullable values is strict: \<^verbatim>\<open>NULL\<close> in, \<^verbatim>\<open>NULL\<close> out.\<close>

definition sql_minus :: "real option \<Rightarrow> real option \<Rightarrow> real option" where
  "sql_minus a b = (case (a, b) of (Some x, Some y) \<Rightarrow> Some (x - y) | _ \<Rightarrow> None)"

subsection \<open>validate_keystroke_array\<close>

text \<open>
  \<^verbatim>\<open>
  RETURN array(
    SELECT CASE
      WHEN value IS NULL OR value < 0 OR value > 5000 THEN 0 -- Cap at 5 seconds
      ELSE value
    END
    FROM unnest(arr) value
  );
  \<close>
\<close>

definition validate_entry :: "real option \<Rightarrow> real option" where
  "validate_entry v =
     (case v of
        None \<Rightarrow> Some 0
      | Some x \<Rightarrow> if x < 0 \<or> x > 5000 then Some 0 else Some x)"

fun validate_keystroke_array :: "float_array \<Rightarrow> float_array" where
  "validate_keystroke_array [] = []"
| "validate_keystroke_array (v # arr) = validate_entry v # validate_keystroke_array arr"

subsection \<open>normalize_keystroke_pattern\<close>

text \<open>
  A normalized pattern is the \<^verbatim>\<open>float[]\<close> built from the rows
  \<^verbatim>\<open>ARRAY[(d - dwell_mean) / dwell_std, (f - flight_mean) / flight_std]\<close>: a list of pairs.
\<close>

type_synonym pattern = "(real option \<times> real option) list"

definition min_std :: real where
  "min_std = 0.0001"

text \<open>
  \<^verbatim>\<open>unnest(dwell_times, flight_times) AS t(d, f)\<close> walks the two arrays in parallel and pads
  the shorter one with \<^verbatim>\<open>NULL\<close>.
\<close>

fun unnest2 :: "'a option list \<Rightarrow> 'b option list \<Rightarrow> ('a option \<times> 'b option) list" where
  "unnest2 [] [] = []"
| "unnest2 (d # ds) [] = (d, None) # unnest2 ds []"
| "unnest2 [] (f # fs) = (None, f) # unnest2 [] fs"
| "unnest2 (d # ds) (f # fs) = (d, f) # unnest2 ds fs"

text \<open>The z-score \<^verbatim>\<open>(d - mean) / std\<close>; \<open>std\<close> is the result of \<^verbatim>\<open>GREATEST\<close>, never null.\<close>

definition z_score :: "real option \<Rightarrow> real option \<Rightarrow> real \<Rightarrow> real option" where
  "z_score d mean std = map_option (\<lambda>x. x / std) (sql_minus d mean)"

text \<open>
  \<^verbatim>\<open>
  dwell_times := validate_keystroke_array(dwell_times);
  flight_times := validate_keystroke_array(flight_times);
  IF array_length(dwell_times, 1) != array_length(flight_times, 1) THEN
    RETURN NULL;
  END IF;
  SELECT avg(d), GREATEST(stddev(d), min_std), avg(f), GREATEST(stddev(f), min_std)
  INTO dwell_mean, dwell_std, flight_mean, flight_std
  FROM unnest(dwell_times) d, unnest(flight_times) f;
  normalized := array(
    SELECT ARRAY[(d - dwell_mean) / dwell_std, (f - flight_mean) / flight_std]
    FROM unnest(dwell_times, flight_times) AS t(d, f));
  RETURN normalized;
  \<close>
  The statistics are taken over \<^verbatim>\<open>FROM unnest(dwell_times) d, unnest(flight_times) f\<close>, the
  cross join of the two arrays (\<^const>\<open>List.product\<close>). The length test is a comparison of
  two nullable lengths, so it only fires when both arrays are non-empty.
\<close>

definition normalize_keystroke_pattern :: "float_array \<Rightarrow> float_array \<Rightarrow> pattern option" where
  "normalize_keystroke_pattern dwell_times0 flight_times0 =
     (let dwell_times = validate_keystroke_array dwell_times0;
          flight_times = validate_keystroke_array flight_times0
      in if (case (array_length dwell_times, array_length flight_times) of
               (Some a, Some b) \<Rightarrow> a \<noteq> b
             | _ \<Rightarrow> False)
         then None
         else
           (let rows = List.product dwell_times flight_times;
                dwell_mean = sql_avg (map fst rows);
                dwell_std = greatest (sql_stddev (map fst rows)) min_std;
                flight_mean = sql_avg (map snd rows);
                flight_std = greatest (sql_stddev (map snd rows)) min_std
            in Some (map (\<lambda>(d, f). (z_score d dwell_mean dwell_std,
                                      z_score f flight_mean flight_std))
                       (unnest2 dwell_times flight_times))))"

subsection \<open>Tables\<close>

type_synonym uuid = nat
type_synonym timestamp = int

record keystroke_session =
  ks_id :: uuid
  ks_user_id :: uuid

record keystroke_datum =
  kd_session_id :: uuid
  dwell_time :: "real option"
  flight_time :: "real option"
  kd_created_at :: timestamp

text \<open>
  A row of \<^verbatim>\<open>auth_attempts\<close>. The field \<open>metadata_match_score\<close> is the value of
  \<^verbatim>\<open>(metadata->>'match_score')::float\<close>: \<open>None\<close> when the metadata has no such key.
\<close>

record auth_attempt =
  aa_user_id :: uuid
  success :: bool
  keystroke_match :: bool
  location_match :: bool
  attempted_at :: timestamp
  metadata_match_score :: "real option"

record database =
  keystroke_sessions :: "keystroke_session list"
  keystroke_data :: "keystroke_datum list"
  auth_attempts :: "auth_attempt list"

definition seven_days :: int where
  "seven_days = 604800"

subsection \<open>calculate_adaptive_threshold\<close>

text \<open>
  \<^verbatim>\<open>
  SELECT (aa.metadata->>'match_score')::float as match_score
  FROM auth_attempts aa
  WHERE aa.user_id = calculate_adaptive_threshold.user_id
    AND aa.success = true
    AND aa.attempted_at > now() - interval '7 days'
  ORDER BY aa.attempted_at DESC
  LIMIT recent_attempts
  \<close>
\<close>

definition successful_in_window :: "auth_attempt list \<Rightarrow> uuid \<Rightarrow> timestamp \<Rightarrow> auth_attempt list" where
  "successful_in_window attempts user_id now =
     filter (\<lambda>aa. aa_user_id aa = user_id \<and> success aa \<and> attempted_at aa > now - seven_days)
       attempts"

definition recent_successful :: "auth_attempt list \<Rightarrow> uuid \<Rightarrow> nat \<Rightarrow> timestamp \<Rightarrow> auth_attempt list" where
  "recent_successful attempts user_id recent_attempts now =
     take recent_attempts
       (sort_key (\<lambda>aa. - attempted_at aa) (successful_in_window attempts user_id now))"

text \<open>
  \<^verbatim>\<open>
  SELECT avg(match_score) * 0.8 INTO threshold FROM (...) recent_scores;
  RETURN COALESCE(threshold, 0.7);
  \<close>
  The parameter \<^verbatim>\<open>recent_attempts\<close> defaults to 10.
\<close>

definition calculate_adaptive_threshold :: "auth_attempt list \<Rightarrow> uuid \<Rightarrow> nat \<Rightarrow> timestamp \<Rightarrow> real" where
  "calculate_adaptive_threshold attempts user_id recent_attempts now =
     (let recent_scores = map metadata_match_score
                            (recent_successful attempts user_id recent_attempts now);
          threshold = map_option (\<lambda>a. a * 0.8) (sql_avg recent_scores)
      in coalesce threshold 0.7)"

subsection \<open>The decision\<close>

datatype recommendation = Accept | Challenge | Reject

text \<open>
  \<^verbatim>\<open>
  CASE
    WHEN match_score >= adaptive_threshold THEN 'accept'
    WHEN match_score >= adaptive_threshold * 0.8 THEN 'challenge'
    ELSE 'reject'
  END
  \<close>
\<close>

definition recommend :: "real \<Rightarrow> real \<Rightarrow> recommendation" where
  "recommend match_score adaptive_threshold =
     (if match_score \<ge> adaptive_threshold then Accept
      else if match_score \<ge> adaptive_threshold * 0.8 then Challenge
      else Reject)"

subsection \<open>Names in the statements of verify_keystroke_pattern\<close>

text \<open>
  Both definitions of \<^verbatim>\<open>verify_keystroke_pattern\<close> that check the arrays (the migration that
  adds the array checks, and \<^verbatim>\<open>flat_meadow\<close>) declare the parameters \<^verbatim>\<open>user_id\<close> and
  \<^verbatim>\<open>session_id\<close> and the same nine variables. In an SQL statement of a PL/pgSQL function,
  a name written without a qualifier that is a column of a table of the statement and
  also a parameter or variable of the function is rejected when the statement is
  executed: \<^verbatim>\<open>column reference "session_id" is ambiguous\<close>. PL/pgSQL resolves such a name
  only under \<^verbatim>\<open>#variable_conflict\<close> or the setting \<^verbatim>\<open>plpgsql.variable_conflict\<close>, and no
  source file gives either. The migration \<^verbatim>\<open>muddy_gate\<close> repairs exactly this in its own
  definition of the function ("Fix ambiguous session_id references") by writing
  \<^verbatim>\<open>kd.session_id\<close>; the two definitions embedded here write the name without a qualifier.

  The declaration of the table \<^verbatim>\<open>keystroke_data\<close> is not among the sources; its columns
  are the ones that the login page inserts and the statements read.
\<close>

datatype verify_error = Unauthorized_access | Ambiguous_column string

definition keystroke_data_columns :: "string list" where
  "keystroke_data_columns =
     [''session_id'', ''key_pressed'', ''press_time'', ''release_time'', ''dwell_time'',
      ''flight_time'', ''created_at'']"

definition verify_keystroke_pattern_names :: "string list" where
  "verify_keystroke_pattern_names =
     [''user_id'', ''session_id'', ''current_pattern'', ''historical_patterns'',
      ''match_score'', ''match_details'', ''adaptive_threshold'', ''requesting_user'',
      ''current_dwell_times'', ''current_flight_times'', ''pattern_length'']"

text \<open>
  The unqualified names of a statement over a table, checked one after the other against
  the columns of the table and the names of the function; the first that is both is the
  error of the statement.
\<close>

fun column_references :: "string list \<Rightarrow> string list \<Rightarrow> string list \<Rightarrow> verify_error + unit" where
  "column_references columns names [] = Inr ()"
| "column_references columns names (c # cs) =
     (if c \<in> set columns \<and> c \<in> set names then Inl (Ambiguous_column c)
      else column_references columns names cs)"

subsection \<open>Reading the keystrokes of a session\<close>

text \<open>
  The two \<^verbatim>\<open>CASE\<close> expressions that clean a row's timings while they are aggregated:
  \<^verbatim>\<open>WHEN dwell_time IS NULL OR dwell_time <= 0 THEN 0 ELSE dwell_time\<close> and
  \<^verbatim>\<open>WHEN flight_time IS NULL OR flight_time < 0 THEN 0 ELSE flight_time\<close>.
\<close>

definition dwell_case :: "real option \<Rightarrow> real option" where
  "dwell_case v = (case v of None \<Rightarrow> Some 0 | Some x \<Rightarrow> if x \<le> 0 then Some 0 else Some x)"

definition flight_case :: "real option \<Rightarrow> real option" where
  "flight_case v = (case v of None \<Rightarrow> Some 0 | Some x \<Rightarrow> if x < 0 then Some 0 else Some x)"

text \<open>
  The rows of one session in the order of \<^verbatim>\<open>array_agg(... ORDER BY created_at)\<close>.
\<close>

definition session_rows :: "keystroke_datum list \<Rightarrow> uuid \<Rightarrow> keystroke_datum list" where
  "session_rows kds sid = sort_key kd_created_at (filter (\<lambda>kd. kd_session_id kd = sid) kds)"

text \<open>
  \<^verbatim>\<open>
  SELECT array_agg(CASE ... END ORDER BY created_at) as dwell_times,
         array_agg(CASE ... END ORDER BY created_at) as flight_times
  FROM keystroke_data
  WHERE session_id = verify_keystroke_pattern.session_id
    AND dwell_time IS NOT NULL
  \<close>
  followed by \<^verbatim>\<open>COALESCE(dwell_times, ARRAY[]::float[])\<close>: no row gives the empty array.
  The statement names \<^verbatim>\<open>dwell_time\<close>, \<^verbatim>\<open>created_at\<close>, \<^verbatim>\<open>flight_time\<close> and, on the left of the
  comparison, \<^verbatim>\<open>session_id\<close> without a qualifier. It stands outside the only block of the
  function that has an \<^verbatim>\<open>EXCEPTION\<close> clause, so its error ends the call.
\<close>

definition current_keystrokes ::
  "keystroke_datum list \<Rightarrow> uuid \<Rightarrow> verify_error + (float_array \<times> float_array)" where
  "current_keystrokes kds sid =
     (case column_references keystroke_data_columns verify_keystroke_pattern_names
             [''dwell_time'', ''created_at'', ''flight_time'', ''session_id''] of
        Inl e \<Rightarrow> Inl e
      | Inr u \<Rightarrow>
          (let rows = filter (\<lambda>kd. dwell_time kd \<noteq> None) (session_rows kds sid)
           in Inr (map (\<lambda>kd. dwell_case (dwell_time kd)) rows,
                   map (\<lambda>kd. flight_case (flight_time kd)) rows)))"

subsection \<open>Selecting the historical sessions\<close>

text \<open>\<^verbatim>\<open>DISTINCT ON (key)\<close> keeps the first row of every run of rows with the same key.\<close>

fun distinct_on :: "('a \<Rightarrow> 'k) \<Rightarrow> 'a list \<Rightarrow> 'a list" where
  "distinct_on k [] = []"
| "distinct_on k [x] = [x]"
| "distinct_on k (x # y # xs) =
     (if k x = k y then distinct_on k (x # xs) else x # distinct_on k (y # xs))"

text \<open>
  \<^verbatim>\<open>
  SELECT DISTINCT ON (ks.id) ks.id as session_id
  FROM keystroke_sessions ks
  INNER JOIN auth_attempts aa ON aa.user_id = ks.user_id
  WHERE ks.user_id = verify_keystroke_pattern.user_id
    AND ks.id != verify_keystroke_pattern.session_id
    AND aa.success = true
  ORDER BY ks.id, aa.attempted_at DESC
  LIMIT 5
  \<close>
  The join pairs a session with every attempt of the same user; the rows are ordered by
  session id, then by the attempt's time, latest first; one row per session id is kept
  and the first five of these are returned.
\<close>

definition historical_session_rows ::
  "database \<Rightarrow> uuid \<Rightarrow> uuid \<Rightarrow> (keystroke_session \<times> auth_attempt) list" where
  "historical_session_rows db user_id session_id =
     (let joined = filter (\<lambda>(ks, aa). aa_user_id aa = ks_user_id ks \<and> ks_user_id ks = user_id \<and>
                                     ks_id ks \<noteq> session_id \<and> success aa)
                     (List.product (keystroke_sessions db) (auth_attempts db));
          ordered = sort_key (\<lambda>(ks, aa). ks_id ks)
                      (sort_key (\<lambda>(ks, aa). - attempted_at aa) joined)
      in take 5 (distinct_on (\<lambda>(ks, aa). ks_id ks) ordered))"

definition historical_sessions :: "database \<Rightarrow> uuid \<Rightarrow> uuid \<Rightarrow> uuid list" where
  "historical_sessions db user_id session_id =
     map (\<lambda>(ks, aa). ks_id ks) (historical_session_rows db user_id session_id)"

text \<open>
  \<^verbatim>\<open>
  SELECT hs.session_id,
         array_agg(CASE ... END ORDER BY kd.created_at) as dwell_times,
         array_agg(CASE ... END ORDER BY kd.created_at) as flight_times
  FROM historical_sessions hs
  INNER JOIN keystroke_data kd ON kd.session_id = hs.session_id
  GROUP BY hs.session_id
  HAVING array_length(array_agg(kd.dwell_time), 1) = pattern_length
  \<close>
  A selected session without keystroke rows has no group.
\<close>

definition historical_keystrokes ::
  "database \<Rightarrow> uuid \<Rightarrow> uuid \<Rightarrow> nat \<Rightarrow> (uuid \<times> float_array \<times> float_array) list" where
  "historical_keystrokes db user_id session_id pattern_length =
     map (\<lambda>(hs, rows). (hs, map (\<lambda>kd. dwell_case (dwell_time kd)) rows,
                              map (\<lambda>kd. flight_case (flight_time kd)) rows))
       (filter (\<lambda>(hs, rows). rows \<noteq> [] \<and>
                               array_length (map dwell_time rows) = Some pattern_length)
          (map (\<lambda>hs. (hs, session_rows (keystroke_data db) hs))
             (historical_sessions db user_id session_id)))"

subsection \<open>Scoring\<close>

text \<open>
  The subquery of the scoring statement reads
  \<^verbatim>\<open>
  SELECT
    1.0 / (1.0 + sqrt(sum(power(c[1] - h[1], 2)) / pattern_length)) as dwell_match,
    1.0 / (1.0 + sqrt(sum(power(c[2] - h[2], 2)) / pattern_length)) as flight_match,
    1.0 / (1.0 + sqrt(sum(power(c[1] - h[1], 2) + power(c[2] - h[2], 2))
                      / (2 * pattern_length))) as total_match
  FROM unnest(current_pattern) WITH ORDINALITY AS c(value, idx)
  CROSS JOIN unnest(historical_patterns) AS historical_pattern
  JOIN unnest(historical_pattern) WITH ORDINALITY AS h(value, idx) ON c.idx = h.idx
  GROUP BY historical_pattern
  \<close>
  \<^verbatim>\<open>current_pattern\<close> is declared \<^verbatim>\<open>float[]\<close> and \<^verbatim>\<open>historical_patterns\<close> \<^verbatim>\<open>float[][]\<close>.
  \<^verbatim>\<open>unnest\<close> of an array of any number of dimensions yields its elements one by one, so
  the column \<^verbatim>\<open>historical_pattern\<close> is a \<^verbatim>\<open>double precision\<close>, and
  \<^verbatim>\<open>unnest(historical_pattern)\<close> calls a function that does not exist. The statement is
  rejected when it is analysed, before a row is read and whatever the variables hold.
  (Its select list would be rejected too: \<^verbatim>\<open>c\<close> and \<^verbatim>\<open>h\<close> are the row aliases of
  \<^verbatim>\<open>(value, idx)\<close>, which have no subscript.) A row of the subquery would carry the three
  similarities of one historical pattern.
\<close>

record match_row =
  dwell_match :: "real option"
  flight_match :: "real option"
  total_match :: "real option"

definition pattern_matches ::
  "pattern option \<Rightarrow> pattern option list \<Rightarrow> nat \<Rightarrow> string + match_row list" where
  "pattern_matches current_pattern historical_patterns pattern_length =
     Inl ''function unnest(double precision) does not exist''"

text \<open>
  The composite type \<^verbatim>\<open>keystroke_match_details\<close> and the aggregation into it:
  \<^verbatim>\<open>
  COALESCE(avg(dwell_match), 0)::float as dwell_time_match,
  COALESCE(avg(flight_match), 0)::float as flight_time_match,
  COALESCE(stddev(total_match), 0)::float as pattern_consistency,
  COALESCE((avg(total_match) * (1 - COALESCE(stddev(total_match), 0))), 0)::float
    as overall_confidence
  \<close>
\<close>

record keystroke_match_details =
  dwell_time_match :: "real option"
  flight_time_match :: "real option"
  pattern_consistency :: "real option"
  overall_confidence :: "real option"

definition aggregate_matches :: "match_row list \<Rightarrow> keystroke_match_details" where
  "aggregate_matches ms =
     \<lparr>dwell_time_match = Some (coalesce (sql_avg (map dwell_match ms)) 0),
      flight_time_match = Some (coalesce (sql_avg (map flight_match ms)) 0),
      pattern_consistency = Some (coalesce (sql_stddev (map total_match ms)) 0),
      overall_confidence =
        Some (coalesce
                (map_option (\<lambda>a. a * (1 - coalesce (sql_stddev (map total_match ms)) 0))
                   (sql_avg (map total_match ms)))
                0)\<rparr>"

text \<open>
  \<^verbatim>\<open>
  match_score := (
    COALESCE(match_details.dwell_time_match, 0) * 0.4 +
    COALESCE(match_details.flight_time_match, 0) * 0.4 +
    COALESCE(match_details.pattern_consistency, 0) * 0.2
  ) * COALESCE(match_details.overall_confidence, 1);
  \<close>
\<close>

definition weighted_score :: "keystroke_match_details \<Rightarrow> real" where
  "weighted_score md =
     (coalesce (dwell_time_match md) 0 * 0.4 +
      coalesce (flight_time_match md) 0 * 0.4 +
      coalesce (pattern_consistency md) 0 * 0.2) * coalesce (overall_confidence md) 1"

text \<open>
  The two statements inside \<^verbatim>\<open>BEGIN ... EXCEPTION WHEN OTHERS THEN ... END\<close>: the match
  details and the score, or the message (\<^verbatim>\<open>SQLERRM\<close>) of the error that was raised.
\<close>

definition calculate_match ::
  "pattern option \<Rightarrow> pattern option list \<Rightarrow> nat \<Rightarrow> string + (keystroke_match_details \<times> real)" where
  "calculate_match current_pattern historical_patterns pattern_length =
     (case pattern_matches current_pattern historical_patterns pattern_length of
        Inl e \<Rightarrow> Inl e
      | Inr ms \<Rightarrow> Inr (aggregate_matches ms, weighted_score (aggregate_matches ms)))"

subsection \<open>verify_keystroke_pattern\<close>

text \<open>
  The JSON objects the function builds. \<open>ErrorJson\<close> has the keys \<^verbatim>\<open>match_score\<close> and
  \<^verbatim>\<open>error\<close>; \<open>NoHistoryJson\<close> has \<^verbatim>\<open>match_score\<close>, \<^verbatim>\<open>threshold\<close> and \<^verbatim>\<open>details.reason\<close>;
  \<open>ResultJson\<close> has \<^verbatim>\<open>match_score\<close>, \<^verbatim>\<open>threshold\<close>, \<^verbatim>\<open>details\<close> (the four match details,
  \<^verbatim>\<open>patterns_compared\<close>, \<^verbatim>\<open>pattern_length\<close>) and \<^verbatim>\<open>recommendation\<close>.
  The last two are the objects of the later definition of the function in the migration
  \<^verbatim>\<open>flat_meadow\<close>: \<open>InsufficientJson\<close> has \<^verbatim>\<open>match_score\<close> and \<^verbatim>\<open>details\<close> (\<^verbatim>\<open>reason\<close>,
  \<^verbatim>\<open>current_length\<close>, \<^verbatim>\<open>historical_patterns\<close>); \<open>ScoreJson\<close> has \<^verbatim>\<open>match_score\<close> and
  \<^verbatim>\<open>details\<close> (\<^verbatim>\<open>patterns_compared\<close>, \<^verbatim>\<open>pattern_length\<close>, \<^verbatim>\<open>recommendation\<close>).
\<close>

datatype verify_json =
    ErrorJson real string
  | NoHistoryJson real real string
  | ResultJson real real keystroke_match_details nat nat recommendation
  | InsufficientJson real string "nat option" nat
  | ScoreJson real nat nat recommendation

text \<open>
  The end of the function, from the scoring block on: the handler of the block returns
  \<^verbatim>\<open>json_build_object('match_score', 0, 'error', 'Error calculating pattern match: ' || SQLERRM)\<close>,
  and after the block the full result is returned with the recommendation.
\<close>

definition match_result :: "real \<Rightarrow> pattern option \<Rightarrow> pattern option list \<Rightarrow> nat \<Rightarrow> verify_json" where
  "match_result adaptive_threshold current_pattern historical_patterns pattern_length =
     (case calculate_match current_pattern historical_patterns pattern_length of
        Inl e \<Rightarrow> ErrorJson 0 (''Error calculating pattern match: '' @ e)
      | Inr (match_details, match_score) \<Rightarrow>
          ResultJson match_score adaptive_threshold match_details
            (length historical_patterns) pattern_length
            (recommend match_score adaptive_threshold))"

text \<open>
  The function as defined in the migration that adds the array checks. \<open>requesting_user\<close>
  is \<^verbatim>\<open>auth.uid()\<close> and \<open>now\<close> is \<^verbatim>\<open>now()\<close>. \<^verbatim>\<open>array_agg\<close> over no row is \<^verbatim>\<open>NULL\<close>, so the
  test \<^verbatim>\<open>historical_patterns IS NULL OR array_length(historical_patterns, 1) = 0\<close> is the
  test for the empty list. An error of the first query ends the call; the supabase client
  hands it to the caller as the error of the remote procedure call.
\<close>

definition verify_keystroke_pattern ::
  "database \<Rightarrow> uuid option \<Rightarrow> uuid \<Rightarrow> uuid \<Rightarrow> timestamp \<Rightarrow> verify_error + verify_json" where
  "verify_keystroke_pattern db requesting_user user_id session_id now =
     (if requesting_user = None \<or> requesting_user \<noteq> Some user_id then Inl Unauthorized_access
      else
        (let adaptive_threshold = calculate_adaptive_threshold (auth_attempts db) user_id 10 now
         in case current_keystrokes (keystroke_data db) session_id of
              Inl e \<Rightarrow> Inl e
            | Inr (current_dwell_times, current_flight_times) \<Rightarrow>
                if array_length current_dwell_times = None \<or>
                   array_length current_dwell_times = Some 0
                then Inr (ErrorJson 0 ''No valid keystroke data found for current session'')
                else
                  (let pattern_length = length current_dwell_times;
                       historical_patterns =
                         map (\<lambda>(hs, dwell_times, flight_times).
                                normalize_keystroke_pattern dwell_times flight_times)
                           (historical_keystrokes db user_id session_id pattern_length);
                       current_pattern =
                         normalize_keystroke_pattern current_dwell_times current_flight_times
                   in if historical_patterns = []
                      then Inr (NoHistoryJson 0.5 adaptive_threshold
                                  ''No historical patterns available for comparison'')
                      else Inr (match_result adaptive_threshold current_pattern
                                  historical_patterns pattern_length))))"

subsection \<open>verify_keystroke_pattern as redefined by the migration flat_meadow\<close>

text \<open>
  The first query of this definition aggregates the timings unchanged and counts the rows:
  \<^verbatim>\<open>
  SELECT array_agg(dwell_time ORDER BY created_at) as dwell_times,
         array_agg(flight_time ORDER BY created_at) as flight_times,
         count(*) as keystroke_count
  FROM keystroke_data
  WHERE session_id = verify_keystroke_pattern.session_id
  \<close>
  The name \<^verbatim>\<open>session_id\<close> on the left of the comparison has no qualifier here either.
\<close>

definition current_keystrokes_flat_meadow ::
  "keystroke_datum list \<Rightarrow> uuid \<Rightarrow> verify_error + (float_array \<times> float_array \<times> nat)" where
  "current_keystrokes_flat_meadow kds sid =
     (case column_references keystroke_data_columns verify_keystroke_pattern_names
             [''dwell_time'', ''created_at'', ''flight_time'', ''session_id''] of
        Inl e \<Rightarrow> Inl e
      | Inr u \<Rightarrow>
          (let rows = session_rows kds sid
           in Inr (map dwell_time rows, map flight_time rows, length rows)))"

text \<open>
  The historical sessions are selected by the same query, which here also returns the
  attempt's time. The keystrokes are aggregated unchanged:
  \<^verbatim>\<open>
  SELECT hs.session_id,
         array_agg(kd.dwell_time ORDER BY kd.created_at) as dwell_times,
         array_agg(kd.flight_time ORDER BY kd.created_at) as flight_times
  FROM historical_sessions hs
  JOIN keystroke_data kd ON kd.session_id = hs.session_id
  GROUP BY hs.session_id, hs.attempted_at
  HAVING count(*) = pattern_length
  ORDER BY hs.attempted_at DESC
  \<close>
\<close>

definition historical_keystrokes_flat_meadow ::
  "database \<Rightarrow> uuid \<Rightarrow> uuid \<Rightarrow> nat \<Rightarrow> (uuid \<times> float_array \<times> float_array) list" where
  "historical_keystrokes_flat_meadow db user_id session_id pattern_length =
     map (\<lambda>((hs, t), rows). (hs, map dwell_time rows, map flight_time rows))
       (sort_key (\<lambda>((hs, t), rows). - t)
          (filter (\<lambda>((hs, t), rows). rows \<noteq> [] \<and> length rows = pattern_length)
             (map (\<lambda>(ks, aa). ((ks_id ks, attempted_at aa),
                                 session_rows (keystroke_data db) (ks_id ks)))
                (historical_session_rows db user_id session_id))))"

text \<open>
  \<^verbatim>\<open>
  SELECT array_agg(normalize_keystroke_pattern(
           validate_keystroke_array(dwell_times), validate_keystroke_array(flight_times)))
  INTO historical_patterns
  FROM historical_keystrokes
  WHERE dwell_times IS NOT NULL AND flight_times IS NOT NULL
    AND array_length(dwell_times, 1) = pattern_length
    AND array_length(flight_times, 1) = pattern_length
  \<close>
\<close>

definition historical_patterns_flat_meadow ::
  "database \<Rightarrow> uuid \<Rightarrow> uuid \<Rightarrow> nat \<Rightarrow> pattern option list" where
  "historical_patterns_flat_meadow db user_id session_id pattern_length =
     map (\<lambda>(hs, dwell_times, flight_times).
            normalize_keystroke_pattern (validate_keystroke_array dwell_times)
              (validate_keystroke_array flight_times))
       (filter (\<lambda>(hs, dwell_times, flight_times).
                  array_length dwell_times = Some pattern_length \<and>
                  array_length flight_times = Some pattern_length)
          (historical_keystrokes_flat_meadow db user_id session_id pattern_length))"

text \<open>
  \<^verbatim>\<open>
  WITH pattern_matches AS (
    SELECT 1.0 / (1.0 + sqrt(sum(power(c.value[1] - h.value[1], 2)
                                 + power(c.value[2] - h.value[2], 2))
                             / (2 * pattern_length))) as similarity
    FROM unnest(current_pattern) WITH ORDINALITY AS c(value, idx)
    CROSS JOIN unnest(historical_patterns) AS hp
    JOIN unnest(hp) WITH ORDINALITY AS h(value, idx) ON c.idx = h.idx
    GROUP BY hp
  )
  \<close>
  The statement has the shape of the one above: \<^verbatim>\<open>hp\<close> is a \<^verbatim>\<open>double precision\<close> and
  \<^verbatim>\<open>unnest(hp)\<close> calls a function that does not exist (and \<^verbatim>\<open>c.value[1]\<close> would subscript
  a \<^verbatim>\<open>double precision\<close>). The block goes on with \<^verbatim>\<open>avg(similarity)\<close> and
  \<^verbatim>\<open>COALESCE(match_score, 0)\<close>.
\<close>

definition pattern_matches_flat_meadow ::
  "pattern option \<Rightarrow> pattern option list \<Rightarrow> nat \<Rightarrow> string + real option list" where
  "pattern_matches_flat_meadow current_pattern historical_patterns pattern_length =
     Inl ''function unnest(double precision) does not exist''"

definition calculate_match_flat_meadow ::
  "pattern option \<Rightarrow> pattern option list \<Rightarrow> nat \<Rightarrow> string + real" where
  "calculate_match_flat_meadow current_pattern historical_patterns pattern_length =
     (case pattern_matches_flat_meadow current_pattern historical_patterns pattern_length of
        Inl e \<Rightarrow> Inl e
      | Inr sims \<Rightarrow> Inr (coalesce (sql_avg sims) 0))"

definition verify_keystroke_pattern_flat_meadow ::
  "database \<Rightarrow> uuid option \<Rightarrow> uuid \<Rightarrow> uuid \<Rightarrow> verify_error + verify_json" where
  "verify_keystroke_pattern_flat_meadow db requesting_user user_id session_id =
     (if requesting_user = None \<or> requesting_user \<noteq> Some user_id then Inl Unauthorized_access
      else
        (case current_keystrokes_flat_meadow (keystroke_data db) session_id of
           Inl e \<Rightarrow> Inl e
         | Inr (current_dwell_times, current_flight_times, pattern_length) \<Rightarrow>
             if pattern_length = 0
             then Inr (ErrorJson 0 ''No keystroke data found for current session'')
             else
               (let historical_patterns =
                      historical_patterns_flat_meadow db user_id session_id pattern_length;
                    current_pattern =
                      normalize_keystroke_pattern current_dwell_times current_flight_times
                in if current_pattern = None \<or> historical_patterns = []
                   then Inr (InsufficientJson 0.5 ''Insufficient data for comparison''
                               (array_length current_dwell_times) (length historical_patterns))
                   else
                     (case calculate_match_flat_meadow current_pattern historical_patterns
                             pattern_length of
                        Inl e \<Rightarrow> Inr (ErrorJson 0 (''Error calculating match: '' @ e))
                      | Inr match_score \<Rightarrow>
                          Inr (ScoreJson match_score (length historical_patterns) pattern_length
                                 (if match_score \<ge> 0.7 then Accept
                                  else if match_score \<ge> 0.5 then Challenge
                                  else Reject))))))"

subsection \<open>The login page after the password check\<close>

text \<open>\<^verbatim>\<open>verificationData.match_score\<close>: every object the function returns has the key.\<close>

fun match_score_of :: "verify_json \<Rightarrow> real" where
  "match_score_of (ErrorJson ms e) = ms"
| "match_score_of (NoHistoryJson ms thr reason) = ms"
| "match_score_of (ResultJson ms thr md compared len r) = ms"
| "match_score_of (InsufficientJson ms reason len compared) = ms"
| "match_score_of (ScoreJson ms compared len r) = ms"

text \<open>
  \<^verbatim>\<open>
  .from('auth_attempts').insert({
    user_id: authData.user.id,
    success: true,
    keystroke_match: matchScore >= 0.7,
    location_match: true, // Simplified
    attempted_at: new Date().toISOString(),
  })
  \<close>
  The insert names no \<^verbatim>\<open>metadata\<close>, so the row gets the default of the column. The
  declaration of the table is not among the sources; \<open>metadata_default\<close> stands for the
  \<^verbatim>\<open>match_score\<close> of that default.
\<close>

definition auth_attempt_row :: "real option \<Rightarrow> uuid \<Rightarrow> real \<Rightarrow> timestamp \<Rightarrow> auth_attempt" where
  "auth_attempt_row metadata_default user_id matchScore now =
     \<lparr>aa_user_id = user_id, success = True, keystroke_match = (matchScore \<ge> 0.7),
      location_match = True, attempted_at = now, metadata_match_score = metadata_default\<rparr>"

datatype route = Dashboard | Otp

text \<open>
  \<open>debouncedLogin\<close> from the answer of the \<^verbatim>\<open>verify_keystroke_pattern\<close> call on: an error
  of the call is thrown as \<^verbatim>\<open>'Failed to verify keystroke pattern'\<close>; otherwise the attempt
  is recorded (a failed insert is only logged; \<open>insert_ok\<close> says whether it succeeded) and
  the page navigates to \<^verbatim>\<open>/dashboard\<close> when \<^verbatim>\<open>matchScore >= 0.7\<close> and to \<^verbatim>\<open>/otp\<close> otherwise.
\<close>

definition debouncedLogin ::
  "real option \<Rightarrow> auth_attempt list \<Rightarrow> uuid \<Rightarrow> verify_error + verify_json \<Rightarrow> bool \<Rightarrow> timestamp \<Rightarrow>
     string + (auth_attempt list \<times> route)" where
  "debouncedLogin metadata_default attempts user_id verification insert_ok now =
     (case verification of
        Inl verificationError \<Rightarrow> Inl ''Failed to verify keystroke pattern''
      | Inr verificationData \<Rightarrow>
          (let matchScore = match_score_of verificationData;
               attempts' = (if insert_ok
                            then attempts @ [auth_attempt_row metadata_default user_id matchScore now]
                            else attempts)
           in Inr (attempts', if matchScore \<ge> 0.7 then Dashboard else Otp)))"

text \<open>The states of \<^verbatim>\<open>auth_attempts\<close> that logins produce from the empty table.\<close>

inductive_set login_flow_tables :: "real option \<Rightarrow> auth_attempt list set"
  for metadata_default :: "real option" where
  initial: "[] \<in> login_flow_tables metadata_default"
| login: "attempts \<in> login_flow_tables metadata_default \<Longrightarrow>
          debouncedLogin metadata_default attempts user_id verification insert_ok now =
            Inr (attempts', r) \<Longrightarrow>
          attempts' \<in> login_flow_tables metadata_default"

subsection \<open>Notions used to state the properties\<close>

text \<open>
  The sessions that qualify as history in the words of the selector's contract: of the
  subject, not the current one, the subject has a successful attempt, and the session has
  exactly \<open>n\<close> keystrokes.
\<close>

definition qualifying_sessions :: "database \<Rightarrow> uuid \<Rightarrow> uuid \<Rightarrow> nat \<Rightarrow> keystroke_session list" where
  "qualifying_sessions db uid sid n =
     filter (\<lambda>ks. ks_user_id ks = uid \<and> ks_id ks \<noteq> sid \<and>
                  list_ex (\<lambda>aa. aa_user_id aa = ks_user_id ks \<and> success aa) (auth_attempts db) \<and>
                  length (session_rows (keystroke_data db) (ks_id ks)) = n)
       (keystroke_sessions db)"

subsection \<open>Example databases\<close>

text \<open>
  Subject 1 with one earlier session and the current session 2, one keystroke each with
  the same timing, and one successful attempt.
\<close>

definition one_key_db :: database where
  "one_key_db =
     \<lparr>keystroke_sessions = [\<lparr>ks_id = 1, ks_user_id = 1\<rparr>, \<lparr>ks_id = 2, ks_user_id = 1\<rparr>],
      keystroke_data =
        [\<lparr>kd_session_id = 1, dwell_time = Some 100, flight_time = None, kd_created_at = 10\<rparr>,
         \<lparr>kd_session_id = 2, dwell_time = Some 100, flight_time = None, kd_created_at = 20\<rparr>],
      auth_attempts =
        [\<lparr>aa_user_id = 1, success = True, keystroke_match = False, location_match = True,
          attempted_at = 15, metadata_match_score = None\<rparr>]\<rparr>"

text \<open>The same with two keystrokes in each session.\<close>

definition two_key_db :: database where
  "two_key_db =
     \<lparr>keystroke_sessions = [\<lparr>ks_id = 1, ks_user_id = 1\<rparr>, \<lparr>ks_id = 2, ks_user_id = 1\<rparr>],
      keystroke_data =
        [\<lparr>kd_session_id = 1, dwell_time = Some 100, flight_time = None, kd_created_at = 10\<rparr>,
         \<lparr>kd_session_id = 1, dwell_time = Some 120, flight_time = Some 30, kd_created_at = 11\<rparr>,
         \<lparr>kd_session_id = 2, dwell_time = Some 100, flight_time = None, kd_created_at = 20\<rparr>,
         \<lparr>kd_session_id = 2, dwell_time = Some 120, flight_time = Some 30, kd_created_at = 21\<rparr>],
      auth_attempts =
        [\<lparr>aa_user_id = 1, success = True, keystroke_match = False, location_match = True,
          attempted_at = 15, metadata_match_score = None\<rparr>]\<rparr>"

text \<open>
  The earlier session has one keystroke and the current session 2 has two; session 3 has
  no keystroke at all.
\<close>

definition short_history_db :: database where
  "short_history_db =
     \<lparr>keystroke_sessions = [\<lparr>ks_id = 1, ks_user_id = 1\<rparr>, \<lparr>ks_id = 2, ks_user_id = 1\<rparr>,
                             \<lparr>ks_id = 3, ks_user_id = 1\<rparr>],
      keystroke_data =
        [\<lparr>kd_session_id = 1, dwell_time = Some 100, flight_time = None, kd_created_at = 10\<rparr>,
         \<lparr>kd_session_id = 2, dwell_time = Some 100, flight_time = None, kd_created_at = 20\<rparr>,
         \<lparr>kd_session_id = 2, dwell_time = Some 120, flight_time = Some 30, kd_created_at = 21\<rparr>],
      auth_attempts =
        [\<lparr>aa_user_id = 1, success = True, keystroke_match = False, location_match = True,
          attempted_at = 15, metadata_match_score = None\<rparr>]\<rparr>"

text \<open>
  Subject 1 has the sessions 1 to 12 and one successful attempt. The sessions 1 to 5 have
  no keystroke; the sessions 6 to 12 have one keystroke each; 12 is the current session.
\<close>

definition many_sessions_db :: database where
  "many_sessions_db =
     \<lparr>keystroke_sessions =
        map (\<lambda>i. \<lparr>ks_id = i, ks_user_id = 1\<rparr>) [1, 2, 3, 4, 5, 6, 7, 8, 9, 10, 11, 12],
      keystroke_data =
        map (\<lambda>i. \<lparr>kd_session_id = i, dwell_time = Some 100, flight_time = None,
                    kd_created_at = 50\<rparr>)
          [6, 7, 8, 9, 10, 11, 12],
      auth_attempts =
        [\<lparr>aa_user_id = 1, success = True, keystroke_match = False, location_match = True,
          attempted_at = 60, metadata_match_score = None\<rparr>]\<rparr>"

text \<open>
  A subject at the first check: one session with one keystroke and no attempt yet.
\<close>

definition first_check_db :: database where
  "first_check_db =
     \<lparr>keystroke_sessions = [\<lparr>ks_id = 1, ks_user_id = 1\<rparr>],
      keystroke_data =
        [\<lparr>kd_session_id = 1, dwell_time = Some 100, flight_time = None, kd_created_at = 10\<rparr>],
      auth_attempts = []\<rparr>"

section \<open>Properties\<close>

subsection \<open>The validator\<close>

lemma validate_keystroke_array_length:
  "length (validate_keystroke_array arr) = length arr"
  by (induction arr) simp_all

lemma validate_keystroke_array_nth:
  "i < length arr \<Longrightarrow> validate_keystroke_array arr ! i = validate_entry (arr ! i)"
proof (induction arr arbitrary: i)
  case Nil
  then show ?case by simp
next
  case (Cons v arr)
  then show ?case by (cases i) simp_all
qed

text \<open>
  C7. The validator returns an array of the length of its argument. Every entry of the
  result is a number in \<open>[0, 5000]\<close>; where the input entry was null, negative or above
  5000 the result entry is 0, and everywhere else it is the input entry.
\<close>

theorem validate_keystroke_array_spec:
  "length (validate_keystroke_array arr) = length arr \<and>
   (\<forall>i < length arr.
      (\<exists>x. validate_keystroke_array arr ! i = Some x \<and> 0 \<le> x \<and> x \<le> 5000) \<and>
      ((arr ! i = None \<or> (\<exists>x. arr ! i = Some x \<and> (x < 0 \<or> x > 5000))) \<longrightarrow>
         validate_keystroke_array arr ! i = Some 0) \<and>
      (\<not> (arr ! i = None \<or> (\<exists>x. arr ! i = Some x \<and> (x < 0 \<or> x > 5000))) \<longrightarrow>
         validate_keystroke_array arr ! i = arr ! i))"
proof (intro conjI allI impI)
  show "length (validate_keystroke_array arr) = length arr"
    by (rule validate_keystroke_array_length)
next
  fix i assume "i < length arr"
  then have nth: "validate_keystroke_array arr ! i = validate_entry (arr ! i)"
    by (rule validate_keystroke_array_nth)
  show "\<exists>x. validate_keystroke_array arr ! i = Some x \<and> 0 \<le> x \<and> x \<le> 5000"
    unfolding nth by (cases "arr ! i") (auto simp: validate_entry_def)
  show "validate_keystroke_array arr ! i = Some 0"
    if "arr ! i = None \<or> (\<exists>x. arr ! i = Some x \<and> (x < 0 \<or> x > 5000))"
    using that unfolding nth by (auto simp: validate_entry_def)
  show "validate_keystroke_array arr ! i = arr ! i"
    if "\<not> (arr ! i = None \<or> (\<exists>x. arr ! i = Some x \<and> (x < 0 \<or> x > 5000)))"
    using that unfolding nth by (cases "arr ! i") (auto simp: validate_entry_def)
qed

theorem validate_keystroke_array_spec_witness:
  "validate_keystroke_array [Some 120, None, Some (-3), Some 5000, Some 5001, Some 0] =
     [Some 120, Some 0, Some 0, Some 5000, Some 0, Some 0] \<and>
   validate_keystroke_array [Some 120, None, Some (-3), Some 5000, Some 5001, Some 0] ! 1 = Some 0 \<and>
   validate_keystroke_array [Some 120, None, Some (-3), Some 5000, Some 5001, Some 0] ! 0 =
     [Some 120, None, Some (-3), Some 5000, Some 5001, Some 0] ! 0"
  using validate_keystroke_array_spec
    [of "[Some 120, None, Some (-3), Some 5000, Some 5001, Some 0]"]
  by (simp add: validate_entry_def)

subsection \<open>The normalizer\<close>

lemma sqrt_nine_quarters: "sqrt (9 / 4) = 3 / 2"
  by (rule real_sqrt_unique) (simp_all add: power2_eq_square)

lemma sqrt_three_neq: "sqrt 3 \<noteq> 3 / 2"
proof
  assume h: "sqrt 3 = 3 / 2"
  have "(sqrt 3)\<^sup>2 = 3" by simp
  then have "(3 / 2 :: real)\<^sup>2 = 3" unfolding h .
  then show False by (simp add: power2_eq_square)
qed

text \<open>
  C6. The statistics of the normalizer are taken over the cross join of the dwell array
  with the flight array, so for \<open>n\<close> keystrokes every dwell value is counted \<open>n\<close> times.
  The mean is that of the series; the standard deviation is not. For the dwell series
  101, 101, 98 the series has mean 100 and standard deviation \<open>sqrt 3\<close>, which would give
  the first z-score \<open>1 / sqrt 3\<close>; the function divides by \<open>3 / 2\<close> and returns \<open>2 / 3\<close>.
\<close>

theorem normalize_keystroke_pattern_cross_join:
  "normalize_keystroke_pattern [Some 101, Some 101, Some 98] [Some 50, Some 50, Some 50] =
     Some [(Some (2 / 3), Some 0), (Some (2 / 3), Some 0), (Some (- 4 / 3), Some 0)] \<and>
   sql_avg [Some 101, Some 101, Some 98] = Some 100 \<and>
   sql_stddev [Some 101, Some 101, Some 98] = Some (sqrt 3) \<and>
   z_score (Some 101) (sql_avg [Some 101, Some 101, Some 98])
     (greatest (sql_stddev [Some 101, Some 101, Some 98]) min_std) \<noteq> Some (2 / 3)"
proof (intro conjI)
  show "normalize_keystroke_pattern [Some 101, Some 101, Some 98] [Some 50, Some 50, Some 50] =
     Some [(Some (2 / 3), Some 0), (Some (2 / 3), Some 0), (Some (- 4 / 3), Some 0)]"
    by (simp add: normalize_keystroke_pattern_def validate_entry_def array_length_def
        sql_avg_def sql_stddev_def greatest_def min_std_def z_score_def sql_minus_def
        Let_def power2_eq_square sqrt_nine_quarters)
  show avg: "sql_avg [Some 101, Some 101, Some 98] = Some 100"
    by (simp add: sql_avg_def)
  show std: "sql_stddev [Some 101, Some 101, Some 98] = Some (sqrt 3)"
    by (simp add: sql_stddev_def Let_def power2_eq_square)
  have "min_std \<le> sqrt 3"
    by (rule real_le_rsqrt) (simp add: min_std_def power2_eq_square)
  then have "greatest (Some (sqrt 3)) min_std = sqrt 3"
    by (simp add: greatest_def max_def)
  then show "z_score (Some 101) (sql_avg [Some 101, Some 101, Some 98])
     (greatest (sql_stddev [Some 101, Some 101, Some 98]) min_std) \<noteq> Some (2 / 3)"
    using sqrt_three_neq by (simp add: avg std z_score_def sql_minus_def field_simps)
qed

subsection \<open>The adaptive threshold\<close>

lemma sorted_take_drop:
  assumes "sorted (map f ys)" and "a \<in> set (take n ys)" and "b \<in> set (drop n ys)"
  shows "f a \<le> f b"
proof -
  have "sorted (map f (take n ys) @ map f (drop n ys))"
    using assms(1) by (simp flip: map_append)
  then show ?thesis using assms(2,3) by (auto simp: sorted_append)
qed

lemma sql_avg_non_null:
  "sql_avg vs =
     (if non_null vs = [] then None
      else Some (sum_list (non_null vs) / real (length (non_null vs))))"
  by (simp add: sql_avg_def Let_def)

text \<open>
  C5. The threshold is 0.8 times the mean of the match scores carried by the selected
  attempts, and 0.7 when they carry none. The selected attempts are successful attempts of
  the subject inside the seven-day window, as many as qualify up to the cap
  \<open>recent_attempts\<close> (10 by default), and no qualifying attempt left out is later than a
  selected one.
\<close>

theorem calculate_adaptive_threshold_spec:
  "calculate_adaptive_threshold attempts uid n now =
     (let scores = non_null (map metadata_match_score (recent_successful attempts uid n now))
      in if scores = [] then 0.7 else 0.8 * (sum_list scores / real (length scores))) \<and>
   length (recent_successful attempts uid n now) =
     min n (length (successful_in_window attempts uid now)) \<and>
   (\<forall>a \<in> set (recent_successful attempts uid n now).
      a \<in> set attempts \<and> aa_user_id a = uid \<and> success a \<and>
      now - seven_days < attempted_at a) \<and>
   (\<forall>a \<in> set (recent_successful attempts uid n now).
      \<forall>b \<in> set (successful_in_window attempts uid now).
        b \<notin> set (recent_successful attempts uid n now) \<longrightarrow> attempted_at b \<le> attempted_at a)"
proof (intro conjI ballI impI)
  show "calculate_adaptive_threshold attempts uid n now =
     (let scores = non_null (map metadata_match_score (recent_successful attempts uid n now))
      in if scores = [] then 0.7 else 0.8 * (sum_list scores / real (length scores)))"
    by (simp add: calculate_adaptive_threshold_def sql_avg_non_null coalesce_def Let_def)
  show "length (recent_successful attempts uid n now) =
     min n (length (successful_in_window attempts uid now))"
    by (simp add: recent_successful_def min.commute)
next
  fix a assume "a \<in> set (recent_successful attempts uid n now)"
  then have "a \<in> set (successful_in_window attempts uid now)"
    by (auto simp: recent_successful_def dest: in_set_takeD)
  then show "a \<in> set attempts" "aa_user_id a = uid" "success a"
    "now - seven_days < attempted_at a"
    by (simp_all add: successful_in_window_def)
next
  fix a b
  let ?ys = "sort_key (\<lambda>aa. - attempted_at aa) (successful_in_window attempts uid now)"
  assume a: "a \<in> set (recent_successful attempts uid n now)"
    and b: "b \<in> set (successful_in_window attempts uid now)"
    and nb: "b \<notin> set (recent_successful attempts uid n now)"
  have "b \<in> set (take n ?ys @ drop n ?ys)" using b by simp
  then have "b \<in> set (drop n ?ys)"
    using nb unfolding recent_successful_def set_append by blast
  then have "- attempted_at a \<le> - attempted_at b"
    using a sorted_take_drop[of "\<lambda>aa. - attempted_at aa" ?ys a n b]
    by (simp add: recent_successful_def)
  then show "attempted_at b \<le> attempted_at a" by simp
qed

text \<open>
  The subject 1 has successful attempts with the scores 0.9, 0.8 and 0.7 inside the
  window, a failed one, and a successful one older than seven days; another subject has
  one too. The threshold of subject 1 is 0.64.
\<close>

theorem calculate_adaptive_threshold_spec_witness:
  "calculate_adaptive_threshold
     [\<lparr>aa_user_id = 1, success = True, keystroke_match = True, location_match = True,
        attempted_at = 1000, metadata_match_score = Some 0.7\<rparr>,
      \<lparr>aa_user_id = 1, success = True, keystroke_match = True, location_match = True,
        attempted_at = 3000, metadata_match_score = Some 0.9\<rparr>,
      \<lparr>aa_user_id = 1, success = False, keystroke_match = False, location_match = True,
        attempted_at = 2500, metadata_match_score = Some 0.1\<rparr>,
      \<lparr>aa_user_id = 2, success = True, keystroke_match = True, location_match = True,
        attempted_at = 2600, metadata_match_score = Some 0.2\<rparr>,
      \<lparr>aa_user_id = 1, success = True, keystroke_match = True, location_match = True,
        attempted_at = 2000, metadata_match_score = Some 0.8\<rparr>,
      \<lparr>aa_user_id = 1, success = True, keystroke_match = True, location_match = True,
        attempted_at = - 700000, metadata_match_score = Some 0.3\<rparr>]
     1 10 3600 = 0.64"
  using calculate_adaptive_threshold_spec [of
     "[\<lparr>aa_user_id = 1, success = True, keystroke_match = True, location_match = True,
        attempted_at = 1000, metadata_match_score = Some 0.7\<rparr>,
      \<lparr>aa_user_id = 1, success = True, keystroke_match = True, location_match = True,
        attempted_at = 3000, metadata_match_score = Some 0.9\<rparr>,
      \<lparr>aa_user_id = 1, success = False, keystroke_match = False, location_match = True,
        attempted_at = 2500, metadata_match_score = Some 0.1\<rparr>,
      \<lparr>aa_user_id = 2, success = True, keystroke_match = True, location_match = True,
        attempted_at = 2600, metadata_match_score = Some 0.2\<rparr>,
      \<lparr>aa_user_id = 1, success = True, keystroke_match = True, location_match = True,
        attempted_at = 2000, metadata_match_score = Some 0.8\<rparr>,
      \<lparr>aa_user_id = 1, success = True, keystroke_match = True, location_match = True,
        attempted_at = - 700000, metadata_match_score = Some 0.3\<rparr>]"
     1 10 3600]
  by (simp add: recent_successful_def successful_in_window_def seven_days_def)

subsection \<open>The decision\<close>

text \<open>
  C2. For every match score and threshold the recommendation is accept exactly when the
  score is at least the threshold, challenge exactly when the score is below the threshold
  and at least 0.8 times the threshold, and reject exactly in the remaining case.
\<close>

theorem recommend_spec:
  "(recommend match_score threshold = Accept \<longleftrightarrow> match_score \<ge> threshold) \<and>
   (recommend match_score threshold = Challenge \<longleftrightarrow>
      threshold * 0.8 \<le> match_score \<and> match_score < threshold) \<and>
   (recommend match_score threshold = Reject \<longleftrightarrow>
      \<not> match_score \<ge> threshold \<and>
      \<not> (threshold * 0.8 \<le> match_score \<and> match_score < threshold))"
  by (auto simp: recommend_def)

theorem recommend_spec_witness:
  "recommend 0.7 0.7 = Accept \<and> recommend 0.6 0.7 = Challenge \<and> recommend 0.5 0.7 = Reject"
  using recommend_spec [of "0.7" "0.7"] recommend_spec [of "0.6" "0.7"]
    recommend_spec [of "0.5" "0.7"]
  by simp

subsection \<open>The attempts recorded by the login page\<close>

lemma login_flow_tables_no_score:
  "attempts \<in> login_flow_tables None \<Longrightarrow> a \<in> set attempts \<Longrightarrow>
   success a \<and> metadata_match_score a = None"
proof (induction arbitrary: a rule: login_flow_tables.induct)
  case initial
  then show ?case by simp
next
  case (login attempts user_id verification insert_ok now attempts' r)
  then show ?case
    by (auto simp: debouncedLogin_def auth_attempt_row_def Let_def split: sum.splits if_splits)
qed

lemma non_null_all_None: "(\<forall>v \<in> set vs. v = None) \<Longrightarrow> non_null vs = []"
  by (induction vs) auto

text \<open>
  C10. The login page records every attempt with \<open>success = true\<close> and names no metadata.
  With a column default that holds no match score, every row of a table that only logins
  have written is successful and carries no score, and the adaptive threshold over such a
  table is the default 0.7 for every subject, cap and time.
\<close>

theorem login_flow_threshold_default:
  "attempts \<in> login_flow_tables None \<Longrightarrow>
     (\<forall>a \<in> set attempts. success a \<and> metadata_match_score a = None) \<and>
     calculate_adaptive_threshold attempts uid n now = 0.7"
proof
  assume T: "attempts \<in> login_flow_tables None"
  show inv: "\<forall>a \<in> set attempts. success a \<and> metadata_match_score a = None"
    using login_flow_tables_no_score[OF T] by blast
  have "set (recent_successful attempts uid n now) \<subseteq> set attempts"
    by (auto simp: recent_successful_def successful_in_window_def dest: in_set_takeD)
  with inv have
    "\<forall>v \<in> set (map metadata_match_score (recent_successful attempts uid n now)). v = None"
    by auto
  then have "non_null (map metadata_match_score (recent_successful attempts uid n now)) = []"
    by (rule non_null_all_None)
  then show "calculate_adaptive_threshold attempts uid n now = 0.7"
    by (simp add: calculate_adaptive_threshold_def sql_avg_def coalesce_def)
qed

text \<open>
  Two logins of subject 1, the first answered with the neutral score and the second with
  a full result of score 0.8: both rows are in the table and the threshold stays 0.7.
\<close>

theorem login_flow_threshold_default_witness:
  "[auth_attempt_row None 1 0.5 100, auth_attempt_row None 1 0.8 200]
     \<in> login_flow_tables None \<and>
   success (auth_attempt_row None 1 0.8 200) \<and>
   calculate_adaptive_threshold
     [auth_attempt_row None 1 0.5 100, auth_attempt_row None 1 0.8 200] 1 10 300 = 0.7"
proof -
  have one: "[auth_attempt_row None 1 0.5 100] \<in> login_flow_tables None"
    by (rule login_flow_tables.login[OF login_flow_tables.initial,
          of None 1 "Inr (NoHistoryJson 0.5 0.7 ''none'')" True 100 _ Otp])
       (simp add: debouncedLogin_def)
  have two: "[auth_attempt_row None 1 0.5 100, auth_attempt_row None 1 0.8 200]
               \<in> login_flow_tables None"
    by (rule login_flow_tables.login[OF one,
          of 1 "Inr (ResultJson 0.8 0.7
                 \<lparr>dwell_time_match = Some 1, flight_time_match = Some 1,
                  pattern_consistency = Some 0, overall_confidence = Some 1\<rparr> 1 1 Accept)"
             True 200 _ Dashboard])
       (simp add: debouncedLogin_def)
  show ?thesis
    using two login_flow_threshold_default[OF two, of 1 10 300]
    by (simp add: auth_attempt_row_def)
qed

subsection \<open>The selection of the historical sessions\<close>

lemma length_map_filter_map_le: "length (map f (filter P (map g xs))) \<le> length xs"
  using length_filter_le[of P "map g xs"] by simp

lemma set_distinct_on: "set (distinct_on k xs) \<subseteq> set xs"
  by (induction k xs rule: distinct_on.induct) auto

lemma distinct_on_distinct:
  "sorted (map k xs) \<Longrightarrow> distinct (map k (distinct_on k xs))"
proof (induction k xs rule: distinct_on.induct)
  case (1 k)
  then show ?case by simp
next
  case (2 k x)
  then show ?case by simp
next
  case (3 k x y xs)
  show ?case
  proof (cases "k x = k y")
    case True
    then show ?thesis using 3 by simp
  next
    case False
    have "k x < k z" if "z \<in> set (distinct_on k (y # xs))" for z
    proof -
      have "z \<in> set (y # xs)" using that set_distinct_on[of k "y # xs"] by blast
      then have "k y \<le> k z" using 3(3) by auto
      moreover have "k x \<le> k y" using 3(3) by simp
      ultimately show ?thesis using False by simp
    qed
    then have "k x \<notin> k ` set (distinct_on k (y # xs))" by force
    then show ?thesis using 3 False by simp
  qed
qed

lemma historical_session_rows_props:
  assumes "(ks, aa) \<in> set (historical_session_rows db uid sid)"
  shows "ks \<in> set (keystroke_sessions db)" "aa \<in> set (auth_attempts db)"
    "ks_user_id ks = uid" "ks_id ks \<noteq> sid" "aa_user_id aa = uid" "success aa"
proof -
  let ?joined = "filter (\<lambda>(ks, aa). aa_user_id aa = ks_user_id ks \<and> ks_user_id ks = uid \<and>
                                     ks_id ks \<noteq> sid \<and> success aa)
                     (List.product (keystroke_sessions db) (auth_attempts db))"
  have "(ks, aa) \<in> set (distinct_on (\<lambda>(ks, aa). ks_id ks)
           (sort_key (\<lambda>(ks, aa). ks_id ks) (sort_key (\<lambda>(ks, aa). - attempted_at aa) ?joined)))"
    using assms unfolding historical_session_rows_def Let_def by (rule in_set_takeD)
  then have "(ks, aa) \<in> set ?joined"
    using set_distinct_on by fastforce
  then show "ks \<in> set (keystroke_sessions db)" "aa \<in> set (auth_attempts db)"
    "ks_user_id ks = uid" "ks_id ks \<noteq> sid" "aa_user_id aa = uid" "success aa"
    by auto
qed

lemma historical_session_rows_length: "length (historical_session_rows db uid sid) \<le> 5"
  by (simp add: historical_session_rows_def Let_def)

lemma historical_session_rows_distinct:
  "distinct (map (\<lambda>(ks, aa). ks_id ks) (historical_session_rows db uid sid))"
proof -
  let ?k = "\<lambda>(ks :: keystroke_session, aa :: auth_attempt). ks_id ks"
  have "distinct (map ?k (distinct_on ?k (sort_key ?k xs)))" for xs
    by (rule distinct_on_distinct) simp
  then show ?thesis
    unfolding historical_session_rows_def Let_def
    by (simp add: take_map[symmetric] distinct_take del: take_map)
qed

text \<open>
  C4. Both definitions of the function select at most five sessions, no session twice.
  Every selected session belongs to the subject, is not the current session, has exactly
  \<open>n\<close> keystroke rows, and its arrays are those of all its rows in their order; the subject
  has a successful attempt. (The join pairs a session with the attempts of its user, so
  this is the only link between a session and an attempt.)
\<close>

theorem historical_keystrokes_spec:
  "length (historical_keystrokes db uid sid n) \<le> 5 \<and>
   distinct (map fst (historical_keystrokes db uid sid n)) \<and>
   (\<forall>(hid, dwell_times, flight_times) \<in> set (historical_keystrokes db uid sid n).
      hid \<noteq> sid \<and>
      (\<exists>ks \<in> set (keystroke_sessions db). ks_id ks = hid \<and> ks_user_id ks = uid) \<and>
      (\<exists>aa \<in> set (auth_attempts db). aa_user_id aa = uid \<and> success aa) \<and>
      length (session_rows (keystroke_data db) hid) = n \<and>
      dwell_times = map (\<lambda>kd. dwell_case (dwell_time kd)) (session_rows (keystroke_data db) hid) \<and>
      flight_times = map (\<lambda>kd. flight_case (flight_time kd)) (session_rows (keystroke_data db) hid)) \<and>
   length (historical_keystrokes_flat_meadow db uid sid n) \<le> 5 \<and>
   distinct (map fst (historical_keystrokes_flat_meadow db uid sid n)) \<and>
   (\<forall>(hid, dwell_times, flight_times) \<in> set (historical_keystrokes_flat_meadow db uid sid n).
      hid \<noteq> sid \<and>
      (\<exists>ks \<in> set (keystroke_sessions db). ks_id ks = hid \<and> ks_user_id ks = uid) \<and>
      (\<exists>aa \<in> set (auth_attempts db). aa_user_id aa = uid \<and> success aa) \<and>
      length (session_rows (keystroke_data db) hid) = n \<and>
      dwell_times = map dwell_time (session_rows (keystroke_data db) hid) \<and>
      flight_times = map flight_time (session_rows (keystroke_data db) hid))"
proof (intro conjI)
  have len: "length (historical_sessions db uid sid) \<le> 5"
    by (simp add: historical_sessions_def historical_session_rows_length)
  show "length (historical_keystrokes db uid sid n) \<le> 5"
  proof -
    have "length (historical_keystrokes db uid sid n) \<le>
          length (historical_sessions db uid sid)"
      unfolding historical_keystrokes_def by (rule length_map_filter_map_le)
    then show ?thesis using len by simp
  qed
  have dist: "distinct (historical_sessions db uid sid)"
    using historical_session_rows_distinct[of db uid sid] by (simp add: historical_sessions_def)
  have "map fst (historical_keystrokes db uid sid n) =
        map fst (filter (\<lambda>(hs, rows). rows \<noteq> [] \<and>
                               array_length (map dwell_time rows) = Some n)
          (map (\<lambda>hs. (hs, session_rows (keystroke_data db) hs))
             (historical_sessions db uid sid)))"
    unfolding historical_keystrokes_def by (simp add: split_def comp_def)
  also have "\<dots> = filter (\<lambda>hs. session_rows (keystroke_data db) hs \<noteq> [] \<and>
      array_length (map dwell_time (session_rows (keystroke_data db) hs)) = Some n)
      (historical_sessions db uid sid)"
    by (simp add: filter_map comp_def)
  finally show "distinct (map fst (historical_keystrokes db uid sid n))"
    using dist by simp
  show "\<forall>(hid, dwell_times, flight_times) \<in> set (historical_keystrokes db uid sid n).
      hid \<noteq> sid \<and>
      (\<exists>ks \<in> set (keystroke_sessions db). ks_id ks = hid \<and> ks_user_id ks = uid) \<and>
      (\<exists>aa \<in> set (auth_attempts db). aa_user_id aa = uid \<and> success aa) \<and>
      length (session_rows (keystroke_data db) hid) = n \<and>
      dwell_times = map (\<lambda>kd. dwell_case (dwell_time kd)) (session_rows (keystroke_data db) hid) \<and>
      flight_times = map (\<lambda>kd. flight_case (flight_time kd)) (session_rows (keystroke_data db) hid)"
  proof (clarify)
    fix hid d f assume "(hid, d, f) \<in> set (historical_keystrokes db uid sid n)"
    then have hs: "hid \<in> set (historical_sessions db uid sid)"
      and al: "array_length (map dwell_time (session_rows (keystroke_data db) hid)) = Some n"
      and d: "d = map (\<lambda>kd. dwell_case (dwell_time kd)) (session_rows (keystroke_data db) hid)"
      and f: "f = map (\<lambda>kd. flight_case (flight_time kd)) (session_rows (keystroke_data db) hid)"
      by (auto simp: historical_keystrokes_def)
    from hs obtain ks aa where m: "(ks, aa) \<in> set (historical_session_rows db uid sid)"
      and id: "ks_id ks = hid"
      by (auto simp: historical_sessions_def)
    note p = historical_session_rows_props[OF m]
    from al have "length (session_rows (keystroke_data db) hid) = n"
      by (simp add: array_length_def split: if_splits)
    with p id d f show "hid \<noteq> sid \<and>
      (\<exists>ks \<in> set (keystroke_sessions db). ks_id ks = hid \<and> ks_user_id ks = uid) \<and>
      (\<exists>aa \<in> set (auth_attempts db). aa_user_id aa = uid \<and> success aa) \<and>
      length (session_rows (keystroke_data db) hid) = n \<and>
      d = map (\<lambda>kd. dwell_case (dwell_time kd)) (session_rows (keystroke_data db) hid) \<and>
      f = map (\<lambda>kd. flight_case (flight_time kd)) (session_rows (keystroke_data db) hid)"
      by blast
  qed
  let ?rows = "map (\<lambda>(ks, aa). ((ks_id ks, attempted_at aa),
                                 session_rows (keystroke_data db) (ks_id ks)))
                (historical_session_rows db uid sid)"
  let ?P = "\<lambda>((hs :: uuid, t :: timestamp), rows :: keystroke_datum list). rows \<noteq> [] \<and> length rows = n"
  let ?K = "\<lambda>((hs :: uuid, t :: timestamp), rows :: keystroke_datum list). - t"
  have lenr: "length ?rows \<le> 5" by (simp add: historical_session_rows_length)
  show "length (historical_keystrokes_flat_meadow db uid sid n) \<le> 5"
  proof -
    have "length (historical_keystrokes_flat_meadow db uid sid n) \<le> length ?rows"
      unfolding historical_keystrokes_flat_meadow_def
      using length_filter_le[of ?P ?rows] by simp
    then show ?thesis using lenr by simp
  qed
  have "distinct (map (\<lambda>((hs, t), rows). hs) ?rows)"
    using historical_session_rows_distinct[of db uid sid] by (simp add: comp_def split_def)
  then have "distinct (map (\<lambda>((hs, t), rows). hs) (filter ?P ?rows))"
    by (rule distinct_map_filter)
  then have "distinct (map (\<lambda>((hs, t), rows). hs) (sort_key ?K (filter ?P ?rows)))"
    by (metis (no_types, lifting) distinct_map distinct_sort set_sort inj_on_cong)
  then show "distinct (map fst (historical_keystrokes_flat_meadow db uid sid n))"
    unfolding historical_keystrokes_flat_meadow_def by (simp add: comp_def split_def)
  show "\<forall>(hid, dwell_times, flight_times) \<in> set (historical_keystrokes_flat_meadow db uid sid n).
      hid \<noteq> sid \<and>
      (\<exists>ks \<in> set (keystroke_sessions db). ks_id ks = hid \<and> ks_user_id ks = uid) \<and>
      (\<exists>aa \<in> set (auth_attempts db). aa_user_id aa = uid \<and> success aa) \<and>
      length (session_rows (keystroke_data db) hid) = n \<and>
      dwell_times = map dwell_time (session_rows (keystroke_data db) hid) \<and>
      flight_times = map flight_time (session_rows (keystroke_data db) hid)"
  proof (clarify)
    fix hid d f assume "(hid, d, f) \<in> set (historical_keystrokes_flat_meadow db uid sid n)"
    then obtain ks aa where m: "(ks, aa) \<in> set (historical_session_rows db uid sid)"
      and id: "ks_id ks = hid"
      and len: "length (session_rows (keystroke_data db) hid) = n"
      and d: "d = map dwell_time (session_rows (keystroke_data db) hid)"
      and f: "f = map flight_time (session_rows (keystroke_data db) hid)"
      by (auto simp: historical_keystrokes_flat_meadow_def)
    note p = historical_session_rows_props[OF m]
    with id d f len show "hid \<noteq> sid \<and>
      (\<exists>ks \<in> set (keystroke_sessions db). ks_id ks = hid \<and> ks_user_id ks = uid) \<and>
      (\<exists>aa \<in> set (auth_attempts db). aa_user_id aa = uid \<and> success aa) \<and>
      length (session_rows (keystroke_data db) hid) = n \<and>
      d = map dwell_time (session_rows (keystroke_data db) hid) \<and>
      f = map flight_time (session_rows (keystroke_data db) hid)"
      by blast
  qed
qed

lemma two_key_db_history:
  "historical_keystrokes two_key_db 1 2 (length [Some (100::real), Some 120]) =
     [(1, [Some 100, Some 120], [Some 0, Some 30])]"
  by (simp add: historical_keystrokes_def historical_sessions_def historical_session_rows_def
      two_key_db_def session_rows_def array_length_def dwell_case_def flight_case_def)

theorem historical_keystrokes_spec_witness:
  "historical_keystrokes two_key_db 1 2 2 = [(1, [Some 100, Some 120], [Some 0, Some 30])] \<and>
   length (historical_keystrokes two_key_db 1 2 2) \<le> 5 \<and>
   length (session_rows (keystroke_data two_key_db) 1) = 2"
proof -
  have h: "historical_keystrokes two_key_db 1 2 2 =
             [(1, [Some 100, Some 120], [Some 0, Some 30])]"
    using two_key_db_history by (simp add: numeral_2_eq_2)
  show ?thesis
    using historical_keystrokes_spec [of two_key_db 1 2 2] unfolding h by simp
qed

text \<open>
  Six sessions of the subject qualify with one keystroke each, and neither definition
  selects any of them: the five sessions with the smallest ids fill the limit of the
  selecting query and are dropped afterwards for having no keystrokes.
\<close>

theorem historical_keystrokes_counterexample:
  "map ks_id (qualifying_sessions many_sessions_db 1 12 1) = [6, 7, 8, 9, 10, 11] \<and>
   historical_sessions many_sessions_db 1 12 = [1, 2, 3, 4, 5] \<and>
   historical_keystrokes many_sessions_db 1 12 1 = [] \<and>
   historical_keystrokes_flat_meadow many_sessions_db 1 12 1 = []"
proof (intro conjI)
  show "map ks_id (qualifying_sessions many_sessions_db 1 12 1) = [6, 7, 8, 9, 10, 11]"
    by (simp add: qualifying_sessions_def many_sessions_db_def session_rows_def)
  show hs: "historical_sessions many_sessions_db 1 12 = [1, 2, 3, 4, 5]"
    by (simp add: historical_sessions_def historical_session_rows_def many_sessions_db_def)
  show "historical_keystrokes many_sessions_db 1 12 1 = []"
    unfolding historical_keystrokes_def hs
    by (simp add: many_sessions_db_def session_rows_def)
  show "historical_keystrokes_flat_meadow many_sessions_db 1 12 1 = []"
    by (simp add: historical_keystrokes_flat_meadow_def historical_session_rows_def
        many_sessions_db_def session_rows_def)
qed

subsection \<open>A constant series\<close>

lemma product_nonempty: "xs \<noteq> [] \<Longrightarrow> ys \<noteq> [] \<Longrightarrow> List.product xs ys \<noteq> []"
  by (cases xs; cases ys) simp_all

lemma unnest2_zip: "length ds = length fs \<Longrightarrow> unnest2 ds fs = zip ds fs"
  by (induction ds fs rule: unnest2.induct) auto

lemma non_null_map_Some [simp]: "non_null (map Some xs) = xs"
  by (induction xs) auto

text \<open>
  The divisor of a z-score is positive, and a series whose validated values are all equal
  is normalized to zeros.
\<close>

lemma sql_avg_constant:
  "vs \<noteq> [] \<Longrightarrow> \<forall>v \<in> set vs. v = Some c \<Longrightarrow> sql_avg vs = Some c"
proof -
  assume ne: "vs \<noteq> []" and all: "\<forall>v \<in> set vs. v = Some c"
  have "vs = map Some (replicate (length vs) c)"
    using all by (induction vs) auto
  then have nn: "non_null vs = replicate (length vs) c"
    by (metis non_null_map_Some)
  have "sum_list (replicate (length vs) c) = real (length vs) * c"
    by (simp add: sum_list_replicate)
  then show ?thesis using ne by (simp add: sql_avg_def nn)
qed

lemma greatest_min_std_pos: "0 < greatest v min_std"
  by (cases v) (simp_all add: greatest_def min_std_def max_def)

lemma normalize_keystroke_pattern_constant_dwell:
  assumes len: "length d = length f" and ne: "d \<noteq> []"
    and const: "\<forall>v \<in> set (validate_keystroke_array d). v = Some c"
  shows "\<exists>p. normalize_keystroke_pattern d f = Some p \<and> length p = length d \<and>
             (\<forall>row \<in> set p. fst row = Some 0)"
proof -
  let ?vd = "validate_keystroke_array d" and ?vf = "validate_keystroke_array f"
  let ?rows = "List.product ?vd ?vf"
  have lens: "length ?vd = length ?vf" "?vd \<noteq> []" "?vf \<noteq> []"
    using len ne validate_keystroke_array_length[of d] validate_keystroke_array_length[of f]
    by auto
  have al: "array_length ?vd = Some (length ?vd)" "array_length ?vf = Some (length ?vf)"
    using lens by (simp_all add: array_length_def)
  have "map fst ?rows \<noteq> []" using lens by (simp add: product_nonempty)
  moreover have "\<forall>v \<in> set (map fst ?rows). v = Some c" using const by auto
  ultimately have avg: "sql_avg (map fst ?rows) = Some c" by (rule sql_avg_constant)
  define p where "p = map (\<lambda>(d, f). (z_score d (Some c) (greatest (sql_stddev (map fst ?rows)) min_std),
                          z_score f (sql_avg (map snd ?rows)) (greatest (sql_stddev (map snd ?rows)) min_std)))
                       (zip ?vd ?vf)"
  have "normalize_keystroke_pattern d f = Some p"
    unfolding normalize_keystroke_pattern_def Let_def al p_def
    using lens(1) by (simp add: avg unnest2_zip)
  moreover have "length p = length d"
    using lens(1) by (simp add: p_def validate_keystroke_array_length)
  moreover have "\<forall>row \<in> set p. fst row = Some 0"
  proof
    fix row assume "row \<in> set p"
    then obtain x y where xy: "(x, y) \<in> set (zip ?vd ?vf)"
      and row: "fst row = z_score x (Some c) (greatest (sql_stddev (map fst ?rows)) min_std)"
      by (auto simp: p_def)
    from xy have "x \<in> set ?vd" by (rule set_zip_leftD)
    with const have "x = Some c" by blast
    then show "fst row = Some 0" by (simp add: row z_score_def sql_minus_def)
  qed
  ultimately show ?thesis by blast
qed

lemma normalize_keystroke_pattern_constant_flight:
  assumes len: "length d = length f" and ne: "d \<noteq> []"
    and const: "\<forall>v \<in> set (validate_keystroke_array f). v = Some c"
  shows "\<exists>p. normalize_keystroke_pattern d f = Some p \<and> length p = length d \<and>
             (\<forall>row \<in> set p. snd row = Some 0)"
proof -
  let ?vd = "validate_keystroke_array d" and ?vf = "validate_keystroke_array f"
  let ?rows = "List.product ?vd ?vf"
  have lens: "length ?vd = length ?vf" "?vd \<noteq> []" "?vf \<noteq> []"
    using len ne validate_keystroke_array_length[of d] validate_keystroke_array_length[of f]
    by auto
  have al: "array_length ?vd = Some (length ?vd)" "array_length ?vf = Some (length ?vf)"
    using lens by (simp_all add: array_length_def)
  have "map snd ?rows \<noteq> []" using lens by (simp add: product_nonempty)
  moreover have "\<forall>v \<in> set (map snd ?rows). v = Some c" using const by auto
  ultimately have avg: "sql_avg (map snd ?rows) = Some c" by (rule sql_avg_constant)
  define p where "p = map (\<lambda>(d, f). (z_score d (sql_avg (map fst ?rows)) (greatest (sql_stddev (map fst ?rows)) min_std),
                          z_score f (Some c) (greatest (sql_stddev (map snd ?rows)) min_std)))
                       (zip ?vd ?vf)"
  have "normalize_keystroke_pattern d f = Some p"
    unfolding normalize_keystroke_pattern_def Let_def al p_def
    using lens(1) by (simp add: avg unnest2_zip)
  moreover have "length p = length d"
    using lens(1) by (simp add: p_def validate_keystroke_array_length)
  moreover have "\<forall>row \<in> set p. snd row = Some 0"
  proof
    fix row assume "row \<in> set p"
    then obtain x y where xy: "(x, y) \<in> set (zip ?vd ?vf)"
      and row: "snd row = z_score y (Some c) (greatest (sql_stddev (map snd ?rows)) min_std)"
      by (auto simp: p_def)
    from xy have "y \<in> set ?vf" by (rule set_zip_rightD)
    with const have "y = Some c" by blast
    then show "snd row = Some 0" by (simp add: row z_score_def sql_minus_def)
  qed
  ultimately show ?thesis by blast
qed

subsection \<open>The first query of verify_keystroke_pattern\<close>

text \<open>
  \<^verbatim>\<open>session_id\<close> is a column of \<^verbatim>\<open>keystroke_data\<close> and a parameter of the function, so the
  first query raises in both definitions, whatever the tables hold and whichever session
  is asked for. It is the first statement after the access check and the threshold, and
  every call by the subject ends there.
\<close>

lemma current_keystrokes_raises:
  "current_keystrokes kds sid = Inl (Ambiguous_column ''session_id'')"
  by (simp add: current_keystrokes_def keystroke_data_columns_def
      verify_keystroke_pattern_names_def)

lemma current_keystrokes_flat_meadow_raises:
  "current_keystrokes_flat_meadow kds sid = Inl (Ambiguous_column ''session_id'')"
  by (simp add: current_keystrokes_flat_meadow_def keystroke_data_columns_def
      verify_keystroke_pattern_names_def)

lemma verify_keystroke_pattern_raises:
  "verify_keystroke_pattern db (Some uid) uid sid now = Inl (Ambiguous_column ''session_id'')"
  by (simp add: verify_keystroke_pattern_def current_keystrokes_raises)

lemma verify_keystroke_pattern_flat_meadow_raises:
  "verify_keystroke_pattern_flat_meadow db (Some uid) uid sid =
     Inl (Ambiguous_column ''session_id'')"
  by (simp add: verify_keystroke_pattern_flat_meadow_def current_keystrokes_flat_meadow_raises)

text \<open>A call by anyone else ends at the access check.\<close>

lemma verify_keystroke_pattern_unauthorized:
  "requesting_user \<noteq> Some uid \<Longrightarrow>
   verify_keystroke_pattern db requesting_user uid sid now = Inl Unauthorized_access"
  by (simp add: verify_keystroke_pattern_def)

text \<open>
  The login page throws on an error of the call: it records no attempt and does not
  navigate.
\<close>

lemma debouncedLogin_throws:
  "debouncedLogin metadata_default attempts uid (Inl e) insert_ok now =
     Inl ''Failed to verify keystroke pattern''"
  by (simp add: debouncedLogin_def)

subsection \<open>The scoring block\<close>

text \<open>
  The scoring statement raises inside the block, so the block always ends in its handler:
  the function's answer from there on is the object with \<^verbatim>\<open>match_score\<close> 0 and the error
  text, for every current pattern, every list of historical patterns and every length.
\<close>

lemma calculate_match_raises:
  "calculate_match current_pattern historical_patterns pattern_length =
     Inl ''function unnest(double precision) does not exist''"
  by (simp add: calculate_match_def pattern_matches_def)

lemma match_result_error:
  "match_result adaptive_threshold current_pattern historical_patterns pattern_length =
     ErrorJson 0 ''Error calculating pattern match: function unnest(double precision) does not exist''"
  by (simp add: match_result_def calculate_match_raises)

lemma calculate_match_flat_meadow_raises:
  "calculate_match_flat_meadow current_pattern historical_patterns pattern_length =
     Inl ''function unnest(double precision) does not exist''"
  by (simp add: calculate_match_flat_meadow_def pattern_matches_flat_meadow_def)


text \<open>
  The aggregation and the weights of the block on one row of similarities that are all 1,
  the row of a pattern compared with itself: the standard deviation of one value is
  \<^verbatim>\<open>NULL\<close>, counted as 0, and the weighted score is 0.8.
\<close>

lemma weighted_score_identical:
  "aggregate_matches [\<lparr>dwell_match = Some 1, flight_match = Some 1, total_match = Some 1\<rparr>] =
     \<lparr>dwell_time_match = Some 1, flight_time_match = Some 1, pattern_consistency = Some 0,
      overall_confidence = Some 1\<rparr> \<and>
   weighted_score
     (aggregate_matches [\<lparr>dwell_match = Some 1, flight_match = Some 1, total_match = Some 1\<rparr>])
     = 0.8"
  by (simp add: aggregate_matches_def weighted_score_def sql_avg_def sql_stddev_def
      coalesce_def)

subsection \<open>A session identical to its single historical session\<close>

lemma one_key_db_history:
  "historical_keystrokes one_key_db 1 2 1 = [(1, [Some 100], [Some 0])]"
  by (simp add: historical_keystrokes_def historical_sessions_def historical_session_rows_def
      one_key_db_def session_rows_def array_length_def dwell_case_def flight_case_def)

lemma one_key_db_rows:
  "map (\<lambda>kd. (dwell_time kd, flight_time kd)) (session_rows (keystroke_data one_key_db) 2) =
     [(Some 100, None)] \<and>
   map (\<lambda>kd. (dwell_time kd, flight_time kd)) (session_rows (keystroke_data one_key_db) 1) =
     [(Some 100, None)]"
  by (simp add: one_key_db_def session_rows_def)

lemma normalize_one_key:
  "normalize_keystroke_pattern [Some 100] [Some 0] = Some [(Some 0, Some 0)]"
  by (simp add: normalize_keystroke_pattern_def validate_entry_def array_length_def
      sql_avg_def sql_stddev_def greatest_def z_score_def sql_minus_def min_std_def)

text \<open>
  C1. In \<open>one_key_db\<close> the current session 2 of subject 1 has one keystroke, with the
  timings of the keystroke of session 1, the single historical session that the selector
  returns for it. The call by the subject does not report similarities of 1, a confidence
  of 1, a score of 1 or a recommendation: in both definitions it raises at the first
  query. The end of the function, run on the normalized pattern of the session against
  itself as the single historical pattern, answers the handler's object with the score 0.
\<close>

theorem verify_keystroke_pattern_identical_raises:
  "map (\<lambda>kd. (dwell_time kd, flight_time kd)) (session_rows (keystroke_data one_key_db) 2) =
     map (\<lambda>kd. (dwell_time kd, flight_time kd)) (session_rows (keystroke_data one_key_db) 1) \<and>
   map fst (historical_keystrokes one_key_db 1 2 1) = [1] \<and>
   verify_keystroke_pattern one_key_db (Some 1) 1 2 30 = Inl (Ambiguous_column ''session_id'') \<and>
   verify_keystroke_pattern_flat_meadow one_key_db (Some 1) 1 2 =
     Inl (Ambiguous_column ''session_id'') \<and>
   match_result 0.7 (normalize_keystroke_pattern [Some 100] [Some 0])
       [normalize_keystroke_pattern [Some 100] [Some 0]] 1 =
     ErrorJson 0 ''Error calculating pattern match: function unnest(double precision) does not exist''"
  using one_key_db_rows one_key_db_history
  by (simp add: verify_keystroke_pattern_raises verify_keystroke_pattern_flat_meadow_raises
      match_result_error)

subsection \<open>A session without keystrokes\<close>

text \<open>
  C3. In \<open>short_history_db\<close> the session 3 of subject 1 has no keystroke. The call by the
  subject raises in both definitions, and the login page throws, but the error is not one
  about the missing keystrokes: it is the error of the first query, the same that the call
  raises for session 1, which has a keystroke. The test for the empty session, which comes
  after that query, is not reached.
\<close>

theorem verify_keystroke_pattern_empty_session_raises:
  "session_rows (keystroke_data short_history_db) 3 = [] \<and>
   session_rows (keystroke_data short_history_db) 1 \<noteq> [] \<and>
   verify_keystroke_pattern short_history_db (Some 1) 1 3 30 =
     Inl (Ambiguous_column ''session_id'') \<and>
   verify_keystroke_pattern short_history_db (Some 1) 1 1 30 =
     Inl (Ambiguous_column ''session_id'') \<and>
   verify_keystroke_pattern_flat_meadow short_history_db (Some 1) 1 3 =
     Inl (Ambiguous_column ''session_id'') \<and>
   verify_keystroke_pattern_flat_meadow short_history_db (Some 1) 1 1 =
     Inl (Ambiguous_column ''session_id'') \<and>
   debouncedLogin None (auth_attempts short_history_db) 1
       (verify_keystroke_pattern short_history_db (Some 1) 1 3 30) True 40 =
     Inl ''Failed to verify keystroke pattern''"
  by (simp add: verify_keystroke_pattern_raises verify_keystroke_pattern_flat_meadow_raises
      debouncedLogin_throws short_history_db_def session_rows_def)

subsection \<open>No usable history\<close>

lemma short_history_db_history:
  "historical_keystrokes short_history_db 1 2 2 = []"
  by (simp add: historical_keystrokes_def historical_sessions_def historical_session_rows_def
      short_history_db_def session_rows_def array_length_def)

lemma first_check_db_history:
  "historical_keystrokes first_check_db 1 1 1 = []"
  by (simp add: historical_keystrokes_def historical_sessions_def historical_session_rows_def
      first_check_db_def)

text \<open>
  C9. In \<open>short_history_db\<close> the current session 2 of subject 1 has two keystrokes and the
  only other session with keystrokes has one; in \<open>first_check_db\<close> the subject has no
  attempt and no other session. In both the selector finds no historical session for the
  current one. The call by the subject does not return a neutral result: it raises at the
  first query, and the login page throws.
\<close>

theorem verify_keystroke_pattern_no_history_raises:
  "length (session_rows (keystroke_data short_history_db) 2) = 2 \<and>
   historical_keystrokes short_history_db 1 2 2 = [] \<and>
   verify_keystroke_pattern short_history_db (Some 1) 1 2 30 =
     Inl (Ambiguous_column ''session_id'') \<and>
   length (session_rows (keystroke_data first_check_db) 1) = 1 \<and>
   historical_keystrokes first_check_db 1 1 1 = [] \<and>
   verify_keystroke_pattern first_check_db (Some 1) 1 1 30 =
     Inl (Ambiguous_column ''session_id'') \<and>
   debouncedLogin None (auth_attempts first_check_db) 1
       (verify_keystroke_pattern first_check_db (Some 1) 1 1 30) True 40 =
     Inl ''Failed to verify keystroke pattern''"
  using short_history_db_history first_check_db_history
  by (simp add: verify_keystroke_pattern_raises debouncedLogin_throws
      short_history_db_def first_check_db_def session_rows_def)

end
